theory Spec2Isabelle
  imports Main
begin

section \<open>Values\<close>

text \<open>
  The schema literals of \<^verbatim>\<open>src/index.ts\<close> describe JSON-like values. Numbers carry no
  constraint in any of the four schemas, so an integer payload stands for them. An object
  is the list of its fields in insertion order; a field is read with \<open>map_of\<close>.
\<close>

datatype json =
    JNull
  | JBool bool
  | JNumber int
  | JString string
  | JArray "json list"
  | JObject "(string \<times> json) list"

fun field :: "string \<Rightarrow> json \<Rightarrow> json option" where
  "field k (JObject fs) = map_of fs k"
| "field k _ = None"

fun is_string :: "json \<Rightarrow> bool" where
  "is_string (JString _) = True"
| "is_string _ = False"

fun is_object :: "json \<Rightarrow> bool" where
  "is_object (JObject _) = True"
| "is_object _ = False"

fun is_array :: "json \<Rightarrow> bool" where
  "is_array (JArray _) = True"
| "is_array _ = False"

fun keys :: "json \<Rightarrow> string list" where
  "keys (JObject fs) = map fst fs"
| "keys _ = []"

text \<open>An object without the field \<open>k\<close>; any other value is left as it is.\<close>

fun omit :: "string \<Rightarrow> json \<Rightarrow> json" where
  "omit k (JObject fs) = JObject (filter (\<lambda>(k', _). k' \<noteq> k) fs)"
| "omit k v = v"

text \<open>The entries of a value's \<open>relationships\<close> array.\<close>

definition embedded_pairs :: "json \<Rightarrow> json list" where
  "embedded_pairs v = (case field ''relationships'' v of Some (JArray xs) \<Rightarrow> xs | _ \<Rightarrow> [])"

section \<open>Schema literals\<close>

text \<open>
  A schema literal is the list of its keywords, in the order the source writes them.
  Only the keywords that occur in \<^verbatim>\<open>src/index.ts\<close> are modelled; \<open>as const\<close>
  is a compile-time annotation and leaves the value as it is.
\<close>

datatype jtype = string_type | object_type | array_type

datatype jformat = uri_format

datatype keyword =
    title string
  | description string
  | type jtype
  | format jformat
  | properties "(string \<times> keyword list) list"
  | required "string list"
  | items "keyword list"
  | additionalProperties bool

type_synonym schema = "keyword list"

definition EntitySchema :: schema where
  "EntitySchema =
    [ title ''Entity Schema'',
      description ''Represents a pointer to some thing as a URI.'',
      type object_type,
      properties
        [ (''id'',
            [ type string_type,
              format uri_format,
              description ''A URI to a particular thing.'' ]) ],
      required [''id''] ]"

definition ComponentSchema :: schema where
  "ComponentSchema =
    [ title ''Component Schema'',
      description ''A schema to represent some quality or property of an entity.'',
      type object_type,
      properties
        [ (''type'',
            [ type string_type,
              format uri_format,
              description ''The type of the component. Must be a URI.'' ]),
          (''description'',
            [ type string_type,
              description ''A description of the component.'' ]),
          (''label'',
            [ type string_type,
              description ''A label to display as a name for the component.'' ]),
          (''properties'',
            [ type object_type,
              additionalProperties True ]) ],
      required [''type''] ]"

definition RelationshipSchema :: schema where
  "RelationshipSchema =
    [ title ''Relationship Schema'',
      description ''A schema to represent a relationship between two entities.'',
      type object_type,
      properties
        [ (''subject'',
            [ type string_type,
              format uri_format,
              description ''The subject entity of the relationship. Must be a URI.'' ]),
          (''predicate'',
            [ type string_type,
              description ''The type of relationship. Can be a URI or a descriptive string.'' ]),
          (''object'',
            [ type string_type,
              format uri_format,
              description ''The object entity of the relationship. Must be a URI.'' ]) ],
      required [''subject'', ''object'', ''predicate''] ]"

text \<open>
  The item schema of \<open>relationships\<close> is written inline in the source (lines 99 to 112);
  it is named here so that it can be referred to. It has no \<open>required\<close> keyword.
\<close>

definition SerializedEntitySchema_relationships_items :: schema where
  "SerializedEntitySchema_relationships_items =
    [ type object_type,
      properties
        [ (''predicate'',
            [ type string_type,
              description ''The type of relationship. Can be a URI or a descriptive string.'' ]),
          (''object'',
            [ type string_type,
              format uri_format,
              description ''A URI to the object entity.'' ]) ] ]"

definition SerializedEntitySchema :: schema where
  "SerializedEntitySchema =
    [ title ''Serialized Entity Schema'',
      description ''An entity along with its components and relationships.'',
      type object_type,
      properties
        [ (''id'',
            [ type string_type,
              format uri_format,
              description ''A URI to the entity.'' ]),
          (''components'',
            [ type array_type,
              description ''An array of components associated with the entity.'',
              items ComponentSchema ]),
          (''relationships'',
            [ type array_type,
              description ''An array of relationships associated with the entity.'',
              items SerializedEntitySchema_relationships_items ]) ],
      required [''id'', ''components'', ''relationships''] ]"

section \<open>Type aliases\<close>

text \<open>
  The exported type aliases, as records. \<open>id\<close>, \<open>type\<close>, \<open>description\<close> and
  \<open>properties\<close> are taken (by HOL and by the schema keywords above), so the fields that
  would clash carry the name of their type. The default argument of \<open>ComponentType\<close>
  (line 45) is a conditional type whose condition holds, so it is
  \<open>Record<string, unknown>\<close>: an object's field list.
\<close>

type_synonym Record_string_unknown = "(string \<times> json) list"

record EntityType =
  id_Entity :: string

record 'T ComponentType =
  type_Component :: string
  description_Component :: "string option"
  label_Component :: "string option"
  properties_Component :: "'T option"

record RelationshipType =
  subject :: string
  predicate :: string
  object :: string

text \<open>The anonymous element type of \<open>SerializedEntityType.relationships\<close> (line 121).\<close>

record EmbeddedRelationship =
  predicate_Embedded :: string
  object_Embedded :: string

record SerializedEntityType =
  id_SerializedEntity :: string
  components :: "Record_string_unknown ComponentType list"
  relationships :: "EmbeddedRelationship list"

text \<open>
  The same aliases as data, so that their fields can be compared with the schema
  literals: a field is its name, whether it is optional (\<open>?:\<close>), and its type.
\<close>

datatype ts_type =
    ts_string
  | ts_Record_string_unknown
  | ts_Array ts_type
  | ts_object "(string \<times> bool \<times> ts_type) list"

definition EntityType_alias :: ts_type where
  "EntityType_alias = ts_object [(''id'', False, ts_string)]"

definition ComponentType_alias :: "ts_type \<Rightarrow> ts_type" where
  "ComponentType_alias T =
    ts_object
      [ (''type'', False, ts_string),
        (''description'', True, ts_string),
        (''label'', True, ts_string),
        (''properties'', True, T) ]"

definition RelationshipType_alias :: ts_type where
  "RelationshipType_alias =
    ts_object
      [ (''subject'', False, ts_string),
        (''predicate'', False, ts_string),
        (''object'', False, ts_string) ]"

definition EmbeddedRelationship_alias :: ts_type where
  "EmbeddedRelationship_alias =
    ts_object [(''predicate'', False, ts_string), (''object'', False, ts_string)]"

definition SerializedEntityType_alias :: ts_type where
  "SerializedEntityType_alias =
    ts_object
      [ (''id'', False, ts_string),
        (''components'', False, ts_Array (ComponentType_alias ts_Record_string_unknown)),
        (''relationships'', False, ts_Array EmbeddedRelationship_alias) ]"

section \<open>Reading a schema literal\<close>

fun typeOf :: "schema \<Rightarrow> jtype option" where
  "typeOf [] = None"
| "typeOf (type t # _) = Some t"
| "typeOf (_ # ks) = typeOf ks"

fun formatOf :: "schema \<Rightarrow> jformat option" where
  "formatOf [] = None"
| "formatOf (format f # _) = Some f"
| "formatOf (_ # ks) = formatOf ks"

fun propertiesOf :: "schema \<Rightarrow> (string \<times> schema) list" where
  "propertiesOf [] = []"
| "propertiesOf (properties ps # _) = ps"
| "propertiesOf (_ # ks) = propertiesOf ks"

fun requiredOf :: "schema \<Rightarrow> string list" where
  "requiredOf [] = []"
| "requiredOf (required rs # _) = rs"
| "requiredOf (_ # ks) = requiredOf ks"

fun itemsOf :: "schema \<Rightarrow> schema option" where
  "itemsOf [] = None"
| "itemsOf (items s # _) = Some s"
| "itemsOf (_ # ks) = itemsOf ks"

fun additionalPropertiesOf :: "schema \<Rightarrow> bool option" where
  "additionalPropertiesOf [] = None"
| "additionalPropertiesOf (additionalProperties b # _) = Some b"
| "additionalPropertiesOf (_ # ks) = additionalPropertiesOf ks"

definition declared :: "schema \<Rightarrow> string list" where
  "declared s = map fst (propertiesOf s)"

section \<open>Validation\<close>

text \<open>
  Modelled from the spec: the error kinds. The repository holds the schema literals and no
  validation engine (spec, section 1); the kinds of failure are the four of section 7.
\<close>

datatype error = ShapeError | FormatError | TypeError | ConsistencyError

fun has_type :: "jtype \<Rightarrow> json \<Rightarrow> bool" where
  "has_type string_type v = is_string v"
| "has_type object_type v = is_object v"
| "has_type array_type v = is_array v"

text \<open>
  Modelled from the spec: how a failed keyword is reported. A value of the wrong kind is a
  \<open>ShapeError\<close> for the candidate itself and a \<open>TypeError\<close> for a field or an element;
  a string that fails its format is a \<open>FormatError\<close>; a missing required field, or a
  field that \<open>additionalProperties: false\<close> forbids, is a \<open>ShapeError\<close>.
\<close>

definition type_errors :: "bool \<Rightarrow> schema \<Rightarrow> json \<Rightarrow> error list" where
  "type_errors outer s v =
    (case typeOf s of
       None \<Rightarrow> []
     | Some t \<Rightarrow> if has_type t v then [] else [if outer then ShapeError else TypeError])"

definition format_errors :: "(string \<Rightarrow> bool) \<Rightarrow> schema \<Rightarrow> string \<Rightarrow> error list" where
  "format_errors uri s x =
    (case formatOf s of
       None \<Rightarrow> []
     | Some uri_format \<Rightarrow> if uri x then [] else [FormatError])"

definition required_errors :: "schema \<Rightarrow> (string \<times> json) list \<Rightarrow> error list" where
  "required_errors s fs =
    concat (map (\<lambda>k. if map_of fs k = None then [ShapeError] else []) (requiredOf s))"

definition additional_errors :: "schema \<Rightarrow> (string \<times> json) list \<Rightarrow> error list" where
  "additional_errors s fs =
    (if additionalPropertiesOf s = Some False
     then concat (map (\<lambda>k. if k \<in> set (declared s) then [] else [ShapeError]) (map fst fs))
     else [])"

lemma size_field: "map_of fs k = Some x \<Longrightarrow> size x < size (JObject fs)"
  by (induction fs) (auto split: if_splits)

lemma size_element: "x \<in> set xs \<Longrightarrow> size x < size (JArray xs)"
  by (induction xs) auto

text \<open>
  The literals are JSON Schema, meant for validation at run time (the repository's
  documentation: "JSON Schema: requires id as a string with format: uri"), and the
  meaning of the keywords is JSON Schema's: every keyword is an assertion of its own,
  \<open>format\<close> applies to strings and is enforced, \<open>items\<close> applies to arrays,
  \<open>required\<close>, \<open>additionalProperties\<close> and \<open>properties\<close> apply to objects, and
  a keyword says nothing about a value of another kind. \<open>uri\<close> is the URI-syntax
  checker, an external collaborator (spec, section 6). \<open>errors\<close> lists every
  violation: \<open>type\<close> first, then the keywords of the value's kind, \<open>required\<close>
  before \<open>properties\<close>, the properties in the order the schema declares them.
\<close>

function (sequential) errors ::
  "(string \<Rightarrow> bool) \<Rightarrow> bool \<Rightarrow> schema \<Rightarrow> json \<Rightarrow> error list" where
  "errors uri outer s (JString x) = type_errors outer s (JString x) @ format_errors uri s x"
| "errors uri outer s (JArray xs) =
     type_errors outer s (JArray xs)
     @ (case itemsOf s of
          None \<Rightarrow> []
        | Some sub \<Rightarrow> concat (map (errors uri False sub) xs))"
| "errors uri outer s (JObject fs) =
     type_errors outer s (JObject fs)
     @ required_errors s fs
     @ additional_errors s fs
     @ concat (map (\<lambda>(k, sub). case map_of fs k of
                                   None \<Rightarrow> []
                                 | Some x \<Rightarrow> errors uri False sub x)
                   (propertiesOf s))"
| "errors uri outer s v = type_errors outer s v"
  by pat_completeness auto
termination
proof (relation "measure (\<lambda>(uri, outer, s, v). size v)", goal_cases)
  case 1
  show ?case by simp
next
  case (2 uri outer s xs sub x)
  then show ?case using size_element [of x xs] by simp
next
  case (3 uri outer s fs p k sub x)
  then show ?case using size_field [of fs k x] by simp
qed

text \<open>Validation reports the first violation, or succeeds when there is none.\<close>

definition validate :: "(string \<Rightarrow> bool) \<Rightarrow> schema \<Rightarrow> json \<Rightarrow> error + unit" where
  "validate uri s v = (case errors uri True s v of [] \<Rightarrow> Inr () | e # _ \<Rightarrow> Inl e)"

text \<open>
  Modelled from the spec: a URI-syntax checker to run the examples with. Section 3 asks
  for a scheme-based absolute identifier: a scheme (a letter, then letters, digits,
  \<open>+\<close>, \<open>-\<close>, \<open>.\<close>), a colon, and no blank anywhere.
\<close>

definition is_alpha :: "char \<Rightarrow> bool" where
  "is_alpha c = (c \<in> set ''abcdefghijklmnopqrstuvwxyzABCDEFGHIJKLMNOPQRSTUVWXYZ'')"

definition is_scheme_char :: "char \<Rightarrow> bool" where
  "is_scheme_char c = (is_alpha c \<or> c \<in> set ''0123456789+-.'')"

definition uri_syntax :: "string \<Rightarrow> bool" where
  "uri_syntax s =
    (case takeWhile (\<lambda>c. c \<noteq> CHR '':'') s of
       [] \<Rightarrow> False
     | c # cs \<Rightarrow>
         is_alpha c \<and> list_all is_scheme_char cs
         \<and> dropWhile (\<lambda>c. c \<noteq> CHR '':'') s \<noteq> []
         \<and> CHR '' '' \<notin> set s)"

section \<open>Membership in a type alias\<close>

text \<open>
  TypeScript types are structural: a value has an object type when every declared field
  is there with its type, or is absent and optional; further fields do not matter.
\<close>

function (sequential) has_ts_type :: "ts_type \<Rightarrow> json \<Rightarrow> bool" where
  "has_ts_type ts_string v = is_string v"
| "has_ts_type ts_Record_string_unknown v = is_object v"
| "has_ts_type (ts_Array t) (JArray xs) = list_all (has_ts_type t) xs"
| "has_ts_type (ts_object ds) (JObject fs) =
     list_all (\<lambda>(k, optional, t). case map_of fs k of
                                     None \<Rightarrow> optional
                                   | Some x \<Rightarrow> has_ts_type t x) ds"
| "has_ts_type _ _ = False"
  by pat_completeness auto
termination
proof (relation "measure (\<lambda>(t, v). size v)", goal_cases)
  case 1
  show ?case by simp
next
  case (2 t xs x)
  then show ?case using size_element [of x xs] by simp
next
  case (3 ds fs d k p optional t x)
  then show ?case using size_field [of fs k x] by simp
qed

text \<open>
  What an alias and a schema literal say about the fields of an object: the name, whether
  the field is optional, and the kind of its value.
\<close>

fun kind_of :: "ts_type \<Rightarrow> jtype" where
  "kind_of ts_string = string_type"
| "kind_of ts_Record_string_unknown = object_type"
| "kind_of (ts_Array _) = array_type"
| "kind_of (ts_object _) = object_type"

fun alias_fields :: "ts_type \<Rightarrow> (string \<times> bool \<times> jtype option) list" where
  "alias_fields (ts_object ds) = map (\<lambda>(k, optional, t). (k, optional, Some (kind_of t))) ds"
| "alias_fields _ = []"

definition schema_fields :: "schema \<Rightarrow> (string \<times> bool \<times> jtype option) list" where
  "schema_fields s = map (\<lambda>(k, sub). (k, k \<notin> set (requiredOf s), typeOf sub)) (propertiesOf s)"

section \<open>Projection and reprojection\<close>

text \<open>
  Modelled from the spec: projection and reprojection (section 4.4). The repository has no
  such functions; only the types they work on are in the source.
\<close>

fun project_relationships :: "string \<Rightarrow> RelationshipType list \<Rightarrow> error + EmbeddedRelationship list" where
  "project_relationships E [] = Inr []"
| "project_relationships E (r # rs) =
     (if subject r = E
      then (case project_relationships E rs of
              Inl e \<Rightarrow> Inl e
            | Inr ps \<Rightarrow> Inr (\<lparr>predicate_Embedded = predicate r, object_Embedded = object r\<rparr> # ps))
      else Inl ConsistencyError)"

definition project ::
  "string \<Rightarrow> Record_string_unknown ComponentType list \<Rightarrow> RelationshipType list
    \<Rightarrow> error + SerializedEntityType" where
  "project E C R =
    (case project_relationships E R of
       Inl e \<Rightarrow> Inl e
     | Inr ps \<Rightarrow> Inr \<lparr>id_SerializedEntity = E, components = C, relationships = ps\<rparr>)"

definition reproject ::
  "SerializedEntityType
    \<Rightarrow> EntityType \<times> Record_string_unknown ComponentType list \<times> RelationshipType list" where
  "reproject se =
    (\<lparr>id_Entity = id_SerializedEntity se\<rparr>,
     components se,
     map (\<lambda>p. \<lparr>subject = id_SerializedEntity se,
                predicate = predicate_Embedded p,
                object = object_Embedded p\<rparr>)
         (relationships se))"

section \<open>Example values\<close>

text \<open>The documentation's examples, and the values at which the claims are tried.\<close>

definition entity_alice :: json where
  "entity_alice = JObject [(''id'', JString ''did:example:alice'')]"

definition entity_with_extra_field :: json where
  "entity_with_extra_field =
    JObject [(''id'', JString ''did:example:alice''), (''extra'', JNumber 1)]"

definition entity_not_a_uri :: json where
  "entity_not_a_uri = JObject [(''id'', JString ''not a uri'')]"

definition verifiedMarker :: json where
  "verifiedMarker = JObject [(''type'', JString ''urn:example:component:verified'')]"

definition nested_component :: json where
  "nested_component =
    JObject
      [ (''type'', JString ''urn:example:component:open''),
        (''properties'',
          JObject [(''nested'',
            JObject [(''arbitrary'', JArray [JString ''structure'', JNumber 1, JBool True])])]) ]"

definition component_not_a_uri :: json where
  "component_not_a_uri = JObject [(''type'', JString ''not-a-uri-either'')]"

definition relationship_without_predicate :: json where
  "relationship_without_predicate =
    JObject [(''subject'', JString ''a''), (''object'', JString ''b'')]"

definition relationship_to_not_a_uri :: json where
  "relationship_to_not_a_uri =
    JObject
      [ (''subject'', JString ''did:example:alice''),
        (''predicate'', JString ''knows''),
        (''object'', JString ''not a uri'') ]"

definition relationship_with_empty_predicate :: json where
  "relationship_with_empty_predicate =
    JObject
      [ (''subject'', JString ''did:example:alice''),
        (''predicate'', JString ''''),
        (''object'', JString ''did:example:bob'') ]"

definition serialized_with_empty_pair :: json where
  "serialized_with_empty_pair =
    JObject
      [ (''id'', JString ''did:example:alice''),
        (''components'', JArray []),
        (''relationships'', JArray [JObject []]) ]"

definition serialized_with_subject :: json where
  "serialized_with_subject =
    JObject
      [ (''id'', JString ''did:example:alice''),
        (''components'', JArray []),
        (''relationships'',
          JArray [JObject [ (''subject'', JString ''did:example:carol''),
                            (''predicate'', JString ''https://schema.org/knows''),
                            (''object'', JString ''did:example:bob'') ]]) ]"

definition knows_bob :: RelationshipType where
  "knows_bob =
    \<lparr>subject = ''did:example:alice'', predicate = ''https://schema.org/knows'',
     object = ''did:example:bob''\<rparr>"

definition carol_knows_bob :: RelationshipType where
  "carol_knows_bob =
    \<lparr>subject = ''did:example:carol'', predicate = ''https://schema.org/knows'',
     object = ''did:example:bob''\<rparr>"

definition tagsComponent :: "Record_string_unknown ComponentType" where
  "tagsComponent =
    \<lparr>type_Component = ''urn:example:component:tags'',
     description_Component = None,
     label_Component = None,
     properties_Component =
       Some [(''tags'', JArray [JString ''friend'', JString ''colleague''])]\<rparr>"

definition nestedComponent :: "Record_string_unknown ComponentType" where
  "nestedComponent =
    \<lparr>type_Component = ''urn:example:component:open'',
     description_Component = None,
     label_Component = None,
     properties_Component =
       Some [(''nested'',
         JObject [(''arbitrary'', JArray [JString ''structure'', JNumber 1, JBool True])])]\<rparr>"

section \<open>Projection: the round trip and the consistency check\<close>

lemma project_relationships_matching:
  "\<forall>r\<in>set R. subject r = E \<Longrightarrow>
   project_relationships E R =
     Inr (map (\<lambda>r. \<lparr>predicate_Embedded = predicate r, object_Embedded = object r\<rparr>) R)"
  by (induction R) simp_all

lemma project_relationships_mismatch:
  "\<exists>r\<in>set R. subject r \<noteq> E \<Longrightarrow> project_relationships E R = Inl ConsistencyError"
  by (induction R) (auto split: sum.splits)

lemma project_relationships_cases:
  "project_relationships E R =
    (if \<forall>r\<in>set R. subject r = E
     then Inr (map (\<lambda>r. \<lparr>predicate_Embedded = predicate r, object_Embedded = object r\<rparr>) R)
     else Inl ConsistencyError)"
  using project_relationships_matching [of R E] project_relationships_mismatch [of R E]
  by auto

lemma resubject:
  "\<forall>r\<in>set R. subject r = E \<Longrightarrow>
   map (\<lambda>p. \<lparr>subject = E, predicate = predicate_Embedded p, object = object_Embedded p\<rparr>)
     (map (\<lambda>r. \<lparr>predicate_Embedded = predicate r, object_Embedded = object r\<rparr>) R) = R"
  by (induction R) simp_all

text \<open>
  Claim C1. For every entity id \<open>E\<close>, component sequence \<open>C\<close> and relationship sequence
  \<open>R\<close> whose elements all have subject \<open>E\<close>, projection succeeds and reprojection of its
  result is exactly \<open>(E, C, R)\<close>: the same lists, in the same order, equal elements kept.
\<close>

theorem C1_roundtrip:
  assumes "\<forall>r\<in>set R. subject r = E"
  shows "\<exists>se. project E C R = Inr se \<and> reproject se = (\<lparr>id_Entity = E\<rparr>, C, R)"
  using assms resubject [of R E]
  by (simp add: project_def reproject_def project_relationships_cases)

theorem C1_roundtrip_witness:
  "\<exists>se. project ''did:example:alice'' [tagsComponent, tagsComponent] [knows_bob, knows_bob] = Inr se
     \<and> reproject se =
         (\<lparr>id_Entity = ''did:example:alice''\<rparr>,
          [tagsComponent, tagsComponent], [knows_bob, knows_bob])"
proof -
  have "\<forall>r\<in>set [knows_bob, knows_bob]. subject r = ''did:example:alice''"
    by (simp add: knows_bob_def)
  then show ?thesis
    by (rule C1_roundtrip)
qed

text \<open>
  Claim C2. Projection fails with \<open>ConsistencyError\<close> exactly when some element of \<open>R\<close>
  has a subject other than \<open>E\<close>, and it returns a Serialized Entity exactly when every
  element has subject \<open>E\<close>. A failure is a value \<open>Inl\<close>, which carries no Serialized
  Entity, and \<open>ConsistencyError\<close> is the only failure there is.
\<close>

theorem C2_project_consistency:
  "(project E C R = Inl ConsistencyError \<longleftrightarrow> (\<exists>r\<in>set R. subject r \<noteq> E))
   \<and> ((\<exists>se. project E C R = Inr se) \<longleftrightarrow> (\<forall>r\<in>set R. subject r = E))
   \<and> (\<forall>e. project E C R = Inl e \<longrightarrow> e = ConsistencyError)"
  by (auto simp: project_def project_relationships_cases)

theorem C2_project_consistency_witness:
  "project ''did:example:alice'' [tagsComponent] [knows_bob, carol_knows_bob]
     = Inl ConsistencyError
   \<and> (\<exists>se. project ''did:example:alice'' [tagsComponent] [knows_bob] = Inr se)"
proof
  have "\<exists>r\<in>set [knows_bob, carol_knows_bob]. subject r \<noteq> ''did:example:alice''"
    by (simp add: carol_knows_bob_def)
  with C2_project_consistency [of "''did:example:alice''" "[tagsComponent]"
      "[knows_bob, carol_knows_bob]"]
  show "project ''did:example:alice'' [tagsComponent] [knows_bob, carol_knows_bob]
     = Inl ConsistencyError"
    by blast
  have "\<forall>r\<in>set [knows_bob]. subject r = ''did:example:alice''"
    by (simp add: knows_bob_def)
  with C2_project_consistency [of "''did:example:alice''" "[tagsComponent]" "[knows_bob]"]
  show "\<exists>se. project ''did:example:alice'' [tagsComponent] [knows_bob] = Inr se"
    by blast
qed

section \<open>What each schema literal reports\<close>

lemmas keyword_defs =
  type_errors_def format_errors_def required_errors_def additional_errors_def declared_def

lemma is_string_iff: "is_string x \<longleftrightarrow> (\<exists>s. x = JString s)"
  by (cases x) simp_all

lemma validate_Inr: "validate uri s v = Inr u \<longleftrightarrow> errors uri True s v = []"
  by (simp add: validate_def split: list.splits)

lemma validate_Inl: "validate uri s v = Inl e \<longleftrightarrow> (\<exists>es. errors uri True s v = e # es)"
  by (simp add: validate_def split: list.splits)

lemma errors_uri_string:
  "errors uri outer [type string_type, format uri_format, description d] x =
    (case x of
       JString s \<Rightarrow> if uri s then [] else [FormatError]
     | _ \<Rightarrow> [if outer then ShapeError else TypeError])"
  by (cases x) (simp_all add: keyword_defs)

lemma errors_plain_string:
  "errors uri outer [type string_type, description d] x =
    (if is_string x then [] else [if outer then ShapeError else TypeError])"
  by (cases x) (simp_all add: keyword_defs)

lemma errors_open_object:
  "errors uri outer [type object_type, additionalProperties True] x =
    (if is_object x then [] else [if outer then ShapeError else TypeError])"
  by (cases x) (simp_all add: keyword_defs)

lemma errors_array_of:
  "errors uri outer [type array_type, description d, items sub] x =
    (case x of
       JArray xs \<Rightarrow> concat (map (errors uri False sub) xs)
     | _ \<Rightarrow> [if outer then ShapeError else TypeError])"
  by (cases x) (simp_all add: keyword_defs)

lemma errors_Entity:
  "errors uri True EntitySchema v =
    (case v of
       JObject fs \<Rightarrow>
         (case map_of fs ''id'' of
            None \<Rightarrow> [ShapeError]
          | Some x \<Rightarrow> errors uri False [type string_type, format uri_format,
                        description ''A URI to a particular thing.''] x)
     | _ \<Rightarrow> [ShapeError])"
  by (cases v) (simp_all add: EntitySchema_def keyword_defs split: option.splits)

lemma errors_Component:
  "errors uri True ComponentSchema v =
    (case v of
       JObject fs \<Rightarrow>
         (case map_of fs ''type'' of None \<Rightarrow> [ShapeError] | Some x \<Rightarrow> [])
         @ (case map_of fs ''type'' of
              None \<Rightarrow> []
            | Some x \<Rightarrow> errors uri False [type string_type, format uri_format,
                          description ''The type of the component. Must be a URI.''] x)
         @ (case map_of fs ''description'' of
              None \<Rightarrow> []
            | Some x \<Rightarrow> errors uri False [type string_type,
                          description ''A description of the component.''] x)
         @ (case map_of fs ''label'' of
              None \<Rightarrow> []
            | Some x \<Rightarrow> errors uri False [type string_type,
                          description ''A label to display as a name for the component.''] x)
         @ (case map_of fs ''properties'' of
              None \<Rightarrow> []
            | Some x \<Rightarrow> errors uri False [type object_type, additionalProperties True] x)
     | _ \<Rightarrow> [ShapeError])"
  by (cases v) (simp_all add: ComponentSchema_def keyword_defs split: option.splits)

lemma errors_Relationship:
  "errors uri True RelationshipSchema v =
    (case v of
       JObject fs \<Rightarrow>
         (case map_of fs ''subject'' of None \<Rightarrow> [ShapeError] | Some x \<Rightarrow> [])
         @ (case map_of fs ''object'' of None \<Rightarrow> [ShapeError] | Some x \<Rightarrow> [])
         @ (case map_of fs ''predicate'' of None \<Rightarrow> [ShapeError] | Some x \<Rightarrow> [])
         @ (case map_of fs ''subject'' of
              None \<Rightarrow> []
            | Some x \<Rightarrow> errors uri False [type string_type, format uri_format,
                 description ''The subject entity of the relationship. Must be a URI.''] x)
         @ (case map_of fs ''predicate'' of
              None \<Rightarrow> []
            | Some x \<Rightarrow> errors uri False [type string_type,
                 description ''The type of relationship. Can be a URI or a descriptive string.''] x)
         @ (case map_of fs ''object'' of
              None \<Rightarrow> []
            | Some x \<Rightarrow> errors uri False [type string_type, format uri_format,
                 description ''The object entity of the relationship. Must be a URI.''] x)
     | _ \<Rightarrow> [ShapeError])"
  by (cases v) (simp_all add: RelationshipSchema_def keyword_defs split: option.splits)

lemma errors_items:
  "errors uri outer SerializedEntitySchema_relationships_items e =
    (case e of
       JObject fs \<Rightarrow>
         (case map_of fs ''predicate'' of
            None \<Rightarrow> []
          | Some x \<Rightarrow> errors uri False [type string_type,
               description ''The type of relationship. Can be a URI or a descriptive string.''] x)
         @ (case map_of fs ''object'' of
              None \<Rightarrow> []
            | Some x \<Rightarrow> errors uri False [type string_type, format uri_format,
                 description ''A URI to the object entity.''] x)
     | _ \<Rightarrow> [if outer then ShapeError else TypeError])"
  by (cases e)
     (simp_all add: SerializedEntitySchema_relationships_items_def keyword_defs
        split: option.splits)

lemma errors_SerializedEntity:
  "errors uri True SerializedEntitySchema v =
    (case v of
       JObject fs \<Rightarrow>
         (case map_of fs ''id'' of None \<Rightarrow> [ShapeError] | Some x \<Rightarrow> [])
         @ (case map_of fs ''components'' of None \<Rightarrow> [ShapeError] | Some x \<Rightarrow> [])
         @ (case map_of fs ''relationships'' of None \<Rightarrow> [ShapeError] | Some x \<Rightarrow> [])
         @ (case map_of fs ''id'' of
              None \<Rightarrow> []
            | Some x \<Rightarrow> errors uri False [type string_type, format uri_format,
                 description ''A URI to the entity.''] x)
         @ (case map_of fs ''components'' of
              None \<Rightarrow> []
            | Some x \<Rightarrow> errors uri False [type array_type,
                 description ''An array of components associated with the entity.'',
                 items ComponentSchema] x)
         @ (case map_of fs ''relationships'' of
              None \<Rightarrow> []
            | Some x \<Rightarrow> errors uri False [type array_type,
                 description ''An array of relationships associated with the entity.'',
                 items SerializedEntitySchema_relationships_items] x)
     | _ \<Rightarrow> [ShapeError])"
  by (cases v) (simp_all add: SerializedEntitySchema_def keyword_defs split: option.splits)

declare errors.simps [simp del]

lemma uri_syntax_alice: "uri_syntax ''did:example:alice''"
  by (simp add: uri_syntax_def is_alpha_def is_scheme_char_def)

lemma uri_syntax_bob: "uri_syntax ''did:example:bob''"
  by (simp add: uri_syntax_def is_alpha_def is_scheme_char_def)

lemma uri_syntax_urn_verified: "uri_syntax ''urn:example:component:verified''"
  by (simp add: uri_syntax_def is_alpha_def is_scheme_char_def)

lemma uri_syntax_urn_open: "uri_syntax ''urn:example:component:open''"
  by (simp add: uri_syntax_def is_alpha_def is_scheme_char_def)

lemma uri_syntax_not_a_uri: "\<not> uri_syntax ''not a uri''"
  by (simp add: uri_syntax_def is_alpha_def is_scheme_char_def)

lemma uri_syntax_not_a_uri_either: "\<not> uri_syntax ''not-a-uri-either''"
  by (simp add: uri_syntax_def is_alpha_def is_scheme_char_def)

lemma uri_syntax_a: "\<not> uri_syntax ''a''"
  by (simp add: uri_syntax_def is_alpha_def is_scheme_char_def)

lemma validate_Entity_iff:
  "validate uri EntitySchema v = Inr () \<longleftrightarrow> (\<exists>s. field ''id'' v = Some (JString s) \<and> uri s)"
  by (cases v)
     (auto simp: validate_Inr errors_Entity errors_uri_string split: option.splits json.splits)

lemma validate_Component_iff:
  "validate uri ComponentSchema v = Inr () \<longleftrightarrow>
      (\<exists>t. field ''type'' v = Some (JString t) \<and> uri t)
      \<and> (\<forall>x. field ''description'' v = Some x \<longrightarrow> is_string x)
      \<and> (\<forall>x. field ''label'' v = Some x \<longrightarrow> is_string x)
      \<and> (\<forall>x. field ''properties'' v = Some x \<longrightarrow> is_object x)"
proof (cases v)
  case (JObject fs)
  then show ?thesis
    by (auto simp: validate_Inr errors_Component errors_uri_string errors_plain_string
          errors_open_object split: option.splits json.splits)
qed (simp_all add: validate_Inr errors_Component)

lemma validate_Relationship_iff:
  "validate uri RelationshipSchema v = Inr () \<longleftrightarrow>
      (\<exists>s p ob. field ''subject'' v = Some (JString s) \<and> uri s
         \<and> field ''predicate'' v = Some (JString p)
         \<and> field ''object'' v = Some (JString ob) \<and> uri ob)"
proof (cases v)
  case (JObject fs)
  then show ?thesis
    by (auto simp: validate_Inr errors_Relationship errors_uri_string errors_plain_string
          is_string_iff split: option.splits json.splits)
qed (simp_all add: validate_Inr errors_Relationship)

lemma validate_Entity_alice: "validate uri_syntax EntitySchema entity_alice = Inr ()"
  by (simp add: validate_Entity_iff entity_alice_def uri_syntax_alice)

section \<open>Serialized Entity validation\<close>

text \<open>
  Claim C3. The claim asks that every entry of \<open>relationships\<close> have a string
  \<open>predicate\<close> and a URI \<open>object\<close>. The item schema (lines 99 to 112) has no
  \<open>required\<close> keyword, so an envelope whose only pair is the empty object is accepted,
  although that value does not have the type \<open>SerializedEntityType\<close> (line 121: both
  fields are declared without \<open>?\<close>) and although \<open>RelationshipSchema\<close> rejects the
  empty object for its missing fields.
\<close>

theorem C3_pair_without_fields_accepted:
  "validate uri_syntax SerializedEntitySchema serialized_with_empty_pair = Inr ()
   \<and> embedded_pairs serialized_with_empty_pair = [JObject []]
   \<and> \<not> has_ts_type SerializedEntityType_alias serialized_with_empty_pair
   \<and> validate uri_syntax RelationshipSchema (JObject []) = Inl ShapeError"
  by (simp add: validate_Inr validate_Inl errors_SerializedEntity errors_uri_string
        errors_array_of errors_items errors_Relationship serialized_with_empty_pair_def
        uri_syntax_alice SerializedEntityType_alias_def EmbeddedRelationship_alias_def
        embedded_pairs_def)

section \<open>Entity validation\<close>

text \<open>
  Claim C4, as amended. Entity validation succeeds if and only if the value is an object
  whose field \<open>id\<close> is a string satisfying URI syntax; further fields are allowed. On
  failure the error is a \<open>ShapeError\<close> when \<open>id\<close> is missing and a \<open>FormatError\<close> when
  \<open>id\<close> is a string that is not a valid URI. The literal \<open>{id: "did:example:alice"}\<close>
  passes and the empty object fails with \<open>ShapeError\<close>.
\<close>

theorem C4_entity_validation:
  "(validate uri EntitySchema v = Inr () \<longleftrightarrow> (\<exists>s. field ''id'' v = Some (JString s) \<and> uri s))
   \<and> (field ''id'' v = None \<longrightarrow> validate uri EntitySchema v = Inl ShapeError)
   \<and> (\<forall>s. field ''id'' v = Some (JString s) \<and> \<not> uri s
          \<longrightarrow> validate uri EntitySchema v = Inl FormatError)
   \<and> validate uri_syntax EntitySchema entity_alice = Inr ()
   \<and> validate uri EntitySchema (JObject []) = Inl ShapeError"
proof (intro conjI)
  show "validate uri EntitySchema v = Inr () \<longleftrightarrow> (\<exists>s. field ''id'' v = Some (JString s) \<and> uri s)"
    by (rule validate_Entity_iff)
  show "field ''id'' v = None \<longrightarrow> validate uri EntitySchema v = Inl ShapeError"
    by (cases v) (simp_all add: validate_Inl errors_Entity)
  show "\<forall>s. field ''id'' v = Some (JString s) \<and> \<not> uri s
          \<longrightarrow> validate uri EntitySchema v = Inl FormatError"
    by (cases v) (simp_all add: validate_Inl errors_Entity errors_uri_string)
  show "validate uri_syntax EntitySchema entity_alice = Inr ()"
    by (rule validate_Entity_alice)
  show "validate uri EntitySchema (JObject []) = Inl ShapeError"
    by (simp add: validate_Inl errors_Entity)
qed

theorem C4_entity_validation_witness:
  "validate uri_syntax EntitySchema (JObject [(''name'', JString ''alice'')]) = Inl ShapeError
   \<and> validate uri_syntax EntitySchema entity_not_a_uri = Inl FormatError"
proof
  have "field ''id'' (JObject [(''name'', JString ''alice'')]) = None"
    by simp
  with C4_entity_validation [of uri_syntax "JObject [(''name'', JString ''alice'')]"]
  show "validate uri_syntax EntitySchema (JObject [(''name'', JString ''alice'')]) = Inl ShapeError"
    by blast
  have "field ''id'' entity_not_a_uri = Some (JString ''not a uri'') \<and> \<not> uri_syntax ''not a uri''"
    by (simp add: entity_not_a_uri_def uri_syntax_not_a_uri)
  with C4_entity_validation [of uri_syntax entity_not_a_uri]
  show "validate uri_syntax EntitySchema entity_not_a_uri = Inl FormatError"
    by blast
qed

text \<open>
  Claim C4 as stated fails: a value with a second field besides \<open>id\<close> is accepted.
\<close>

theorem C4_exactly_id_counterexample:
  "validate uri_syntax EntitySchema entity_with_extra_field = Inr ()
   \<and> keys entity_with_extra_field = [''id'', ''extra'']"
  by (simp add: validate_Entity_iff entity_with_extra_field_def uri_syntax_alice)

section \<open>Component validation\<close>

text \<open>
  Claim C5. Component validation succeeds if and only if the value has a field \<open>type\<close>
  that is a URI-formatted string, its \<open>description\<close> and \<open>label\<close>, when present, are
  strings, and its \<open>properties\<close>, when present, is an object, whatever its fields hold.
  A component with only \<open>type\<close> validates, and so does one with any \<open>properties\<close>
  object; a \<open>type\<close> that is a string but not a URI fails with \<open>FormatError\<close>.
  Validation returns a verdict only, and projection followed by reprojection hands the
  components back as they were, payload included.
\<close>

theorem C5_component_validation:
  "(validate uri ComponentSchema v = Inr () \<longleftrightarrow>
      (\<exists>t. field ''type'' v = Some (JString t) \<and> uri t)
      \<and> (\<forall>x. field ''description'' v = Some x \<longrightarrow> is_string x)
      \<and> (\<forall>x. field ''label'' v = Some x \<longrightarrow> is_string x)
      \<and> (\<forall>x. field ''properties'' v = Some x \<longrightarrow> is_object x))
   \<and> (uri t \<longrightarrow> validate uri ComponentSchema (JObject [(''type'', JString t)]) = Inr ())
   \<and> (uri t \<longrightarrow> validate uri ComponentSchema
                    (JObject [(''type'', JString t), (''properties'', JObject ps)]) = Inr ())
   \<and> (field ''type'' v = Some (JString t) \<and> \<not> uri t
        \<longrightarrow> validate uri ComponentSchema v = Inl FormatError)
   \<and> ((\<forall>r\<in>set R. subject r = E)
        \<longrightarrow> (\<exists>se. project E C R = Inr se \<and> components se = C \<and> fst (snd (reproject se)) = C))"
proof (intro conjI)
  show "validate uri ComponentSchema v = Inr () \<longleftrightarrow>
      (\<exists>t. field ''type'' v = Some (JString t) \<and> uri t)
      \<and> (\<forall>x. field ''description'' v = Some x \<longrightarrow> is_string x)
      \<and> (\<forall>x. field ''label'' v = Some x \<longrightarrow> is_string x)
      \<and> (\<forall>x. field ''properties'' v = Some x \<longrightarrow> is_object x)"
    by (rule validate_Component_iff)
  show "uri t \<longrightarrow> validate uri ComponentSchema (JObject [(''type'', JString t)]) = Inr ()"
    by (simp add: validate_Component_iff)
  show "uri t \<longrightarrow> validate uri ComponentSchema
                    (JObject [(''type'', JString t), (''properties'', JObject ps)]) = Inr ()"
    by (simp add: validate_Component_iff)
  show "field ''type'' v = Some (JString t) \<and> \<not> uri t
        \<longrightarrow> validate uri ComponentSchema v = Inl FormatError"
    by (cases v) (simp_all add: validate_Inl errors_Component errors_uri_string)
  show "(\<forall>r\<in>set R. subject r = E)
        \<longrightarrow> (\<exists>se. project E C R = Inr se \<and> components se = C \<and> fst (snd (reproject se)) = C)"
    by (simp add: project_def reproject_def project_relationships_cases)
qed

theorem C5_component_validation_witness:
  "validate uri_syntax ComponentSchema verifiedMarker = Inr ()
   \<and> validate uri_syntax ComponentSchema nested_component = Inr ()
   \<and> validate uri_syntax ComponentSchema component_not_a_uri = Inl FormatError
   \<and> (\<exists>se. project ''did:example:alice'' [nestedComponent, nestedComponent] [knows_bob] = Inr se
        \<and> fst (snd (reproject se)) = [nestedComponent, nestedComponent])"
proof (intro conjI)
  from C5_component_validation [of uri_syntax _ "''urn:example:component:verified''"]
    uri_syntax_urn_verified
  show "validate uri_syntax ComponentSchema verifiedMarker = Inr ()"
    unfolding verifiedMarker_def by blast
  from C5_component_validation [of uri_syntax _ "''urn:example:component:open''"]
    uri_syntax_urn_open
  show "validate uri_syntax ComponentSchema nested_component = Inr ()"
    unfolding nested_component_def by blast
  have "field ''type'' component_not_a_uri = Some (JString ''not-a-uri-either'')
        \<and> \<not> uri_syntax ''not-a-uri-either''"
    by (simp add: component_not_a_uri_def uri_syntax_not_a_uri_either)
  with C5_component_validation [of uri_syntax component_not_a_uri "''not-a-uri-either''"]
  show "validate uri_syntax ComponentSchema component_not_a_uri = Inl FormatError"
    by blast
  have "\<forall>r\<in>set [knows_bob]. subject r = ''did:example:alice''"
    by (simp add: knows_bob_def)
  with C5_component_validation [where R = "[knows_bob]" and E = "''did:example:alice''"
      and C = "[nestedComponent, nestedComponent]"]
  show "\<exists>se. project ''did:example:alice'' [nestedComponent, nestedComponent] [knows_bob] = Inr se
        \<and> fst (snd (reproject se)) = [nestedComponent, nestedComponent]"
    by blast
qed

section \<open>Relationship validation\<close>

text \<open>
  Claim C6, as amended. Relationship validation succeeds if and only if the value has the
  fields \<open>subject\<close> and \<open>object\<close>, each a URI-formatted string, and a field
  \<open>predicate\<close> that is a string: any string, the empty one included, and no URI format
  is asked of it. When a required field is absent from an object, validation fails with
  \<open>ShapeError\<close>. A \<open>subject\<close> or \<open>object\<close> that is a string failing URI syntax is
  reported as a \<open>FormatError\<close> among the violations, and it is the error validation
  fails with when all three fields are present and strings.
\<close>

theorem C6_relationship_validation:
  "(validate uri RelationshipSchema v = Inr () \<longleftrightarrow>
      (\<exists>s p ob. field ''subject'' v = Some (JString s) \<and> uri s
         \<and> field ''predicate'' v = Some (JString p)
         \<and> field ''object'' v = Some (JString ob) \<and> uri ob))
   \<and> (field ''subject'' v = None \<or> field ''predicate'' v = None \<or> field ''object'' v = None
        \<longrightarrow> validate uri RelationshipSchema v = Inl ShapeError)
   \<and> ((field ''subject'' v = Some (JString s) \<or> field ''object'' v = Some (JString s)) \<and> \<not> uri s
        \<longrightarrow> FormatError \<in> set (errors uri True RelationshipSchema v))
   \<and> (field ''subject'' v = Some (JString s) \<and> field ''predicate'' v = Some (JString p)
        \<and> field ''object'' v = Some (JString ob) \<and> (\<not> uri s \<or> \<not> uri ob)
        \<longrightarrow> validate uri RelationshipSchema v = Inl FormatError)"
proof (intro conjI)
  show "validate uri RelationshipSchema v = Inr () \<longleftrightarrow>
      (\<exists>s p ob. field ''subject'' v = Some (JString s) \<and> uri s
         \<and> field ''predicate'' v = Some (JString p)
         \<and> field ''object'' v = Some (JString ob) \<and> uri ob)"
    by (rule validate_Relationship_iff)
  show "field ''subject'' v = None \<or> field ''predicate'' v = None \<or> field ''object'' v = None
        \<longrightarrow> validate uri RelationshipSchema v = Inl ShapeError"
    by (cases v) (auto simp: validate_Inl errors_Relationship split: option.splits)
  show "(field ''subject'' v = Some (JString s) \<or> field ''object'' v = Some (JString s)) \<and> \<not> uri s
        \<longrightarrow> FormatError \<in> set (errors uri True RelationshipSchema v)"
    by (cases v) (auto simp: errors_Relationship errors_uri_string split: option.splits)
  show "field ''subject'' v = Some (JString s) \<and> field ''predicate'' v = Some (JString p)
        \<and> field ''object'' v = Some (JString ob) \<and> (\<not> uri s \<or> \<not> uri ob)
        \<longrightarrow> validate uri RelationshipSchema v = Inl FormatError"
    by (cases v)
       (auto simp: validate_Inl errors_Relationship errors_uri_string errors_plain_string)
qed

theorem C6_relationship_validation_witness:
  "validate uri_syntax RelationshipSchema relationship_without_predicate = Inl ShapeError
   \<and> FormatError \<in> set (errors uri_syntax True RelationshipSchema relationship_without_predicate)
   \<and> validate uri_syntax RelationshipSchema relationship_to_not_a_uri = Inl FormatError"
proof (intro conjI)
  have "field ''predicate'' relationship_without_predicate = None"
    by (simp add: relationship_without_predicate_def)
  with C6_relationship_validation [of uri_syntax relationship_without_predicate]
  show "validate uri_syntax RelationshipSchema relationship_without_predicate = Inl ShapeError"
    by blast
  have "field ''subject'' relationship_without_predicate = Some (JString ''a'')
        \<and> \<not> uri_syntax ''a''"
    by (simp add: relationship_without_predicate_def uri_syntax_a)
  with C6_relationship_validation [of uri_syntax relationship_without_predicate "''a''"]
  show "FormatError \<in> set (errors uri_syntax True RelationshipSchema relationship_without_predicate)"
    by blast
  have "field ''subject'' relationship_to_not_a_uri = Some (JString ''did:example:alice'')
        \<and> field ''predicate'' relationship_to_not_a_uri = Some (JString ''knows'')
        \<and> field ''object'' relationship_to_not_a_uri = Some (JString ''not a uri'')
        \<and> \<not> uri_syntax ''not a uri''"
    by (simp add: relationship_to_not_a_uri_def uri_syntax_not_a_uri)
  with C6_relationship_validation [of uri_syntax relationship_to_not_a_uri
      "''did:example:alice''" "''knows''" "''not a uri''"]
  show "validate uri_syntax RelationshipSchema relationship_to_not_a_uri = Inl FormatError"
    by blast
qed

text \<open>
  Claim C6 as stated fails: a relationship whose \<open>predicate\<close> is the empty string is
  accepted.
\<close>

theorem C6_empty_predicate_counterexample:
  "validate uri_syntax RelationshipSchema relationship_with_empty_predicate = Inr ()
   \<and> field ''predicate'' relationship_with_empty_predicate = Some (JString '''')"
  by (simp add: validate_Relationship_iff relationship_with_empty_predicate_def
        uri_syntax_alice uri_syntax_bob)

section \<open>Fields that the schemas do not declare\<close>

lemma map_of_omit:
  "map_of (filter (\<lambda>(k', _). k' \<noteq> k) fs) k'' = (if k'' = k then None else map_of fs k'')"
  by (induction fs) auto

text \<open>
  A schema that does not set \<open>additionalProperties\<close> to false and requires only fields
  it declares looks at the declared fields of an object and at nothing else.
\<close>

lemma errors_declared_only:
  assumes "additionalPropertiesOf s \<noteq> Some False"
    and "set (requiredOf s) \<subseteq> set (declared s)"
    and "\<forall>k\<in>set (declared s). map_of fs k = map_of fs' k"
  shows "errors uri outer s (JObject fs) = errors uri outer s (JObject fs')"
proof -
  have "has_type t (JObject gs) = (t = object_type)" for t gs
    by (cases t) simp_all
  then have t: "type_errors outer s (JObject fs) = type_errors outer s (JObject fs')"
    by (simp add: type_errors_def split: option.splits)
  have r: "required_errors s fs = required_errors s fs'"
    unfolding required_errors_def using assms(2,3)
    by (intro arg_cong [where f = concat] map_cong) auto
  have a: "additional_errors s fs = additional_errors s fs'"
    using assms(1) by (simp add: additional_errors_def)
  have p: "map (\<lambda>(k, sub). case map_of fs k of None \<Rightarrow> [] | Some x \<Rightarrow> errors uri False sub x)
             (propertiesOf s)
         = map (\<lambda>(k, sub). case map_of fs' k of None \<Rightarrow> [] | Some x \<Rightarrow> errors uri False sub x)
             (propertiesOf s)"
    using assms(3) by (intro map_cong) (auto simp: declared_def)
  show ?thesis by (simp add: errors.simps t r a p)
qed

lemma four_schemas_open:
  assumes "S \<in> set [EntitySchema, ComponentSchema, RelationshipSchema, SerializedEntitySchema]"
  shows "additionalPropertiesOf S \<noteq> Some False" and "set (requiredOf S) \<subseteq> set (declared S)"
  using assms
  by (auto simp: EntitySchema_def ComponentSchema_def RelationshipSchema_def
        SerializedEntitySchema_def declared_def)

lemma items_open:
  "additionalPropertiesOf SerializedEntitySchema_relationships_items \<noteq> Some False"
  "set (requiredOf SerializedEntitySchema_relationships_items)
    \<subseteq> set (declared SerializedEntitySchema_relationships_items)"
  "declared SerializedEntitySchema_relationships_items = [''predicate'', ''object'']"
  by (simp_all add: SerializedEntitySchema_relationships_items_def declared_def)

text \<open>
  Claim C7, as amended. The embedded relationship form declares two fields, \<open>predicate\<close>
  and \<open>object\<close>, and no \<open>subject\<close>, in the item schema and in the type alias alike.
  Projection emits pairs of exactly these two fields, and reprojection rebuilds each full
  Relationship by taking the envelope's \<open>id\<close> as the subject. A \<open>subject\<close> field in an
  embedded pair is not forbidden: the item schema reports the same with it and without it.
\<close>

theorem C7_embedded_form:
  "declared SerializedEntitySchema_relationships_items = [''predicate'', ''object'']
   \<and> map fst (alias_fields EmbeddedRelationship_alias) = [''predicate'', ''object'']
   \<and> (project E C R = Inr se
        \<longrightarrow> relationships se
            = map (\<lambda>r. \<lparr>predicate_Embedded = predicate r, object_Embedded = object r\<rparr>) R)
   \<and> snd (snd (reproject se'))
       = map (\<lambda>p. \<lparr>subject = id_SerializedEntity se', predicate = predicate_Embedded p,
                   object = object_Embedded p\<rparr>) (relationships se')
   \<and> map subject (snd (snd (reproject se')))
       = replicate (length (relationships se')) (id_SerializedEntity se')
   \<and> errors uri outer SerializedEntitySchema_relationships_items (JObject ((''subject'', x) # fs))
       = errors uri outer SerializedEntitySchema_relationships_items (JObject fs)"
proof (intro conjI)
  show "declared SerializedEntitySchema_relationships_items = [''predicate'', ''object'']"
    by (rule items_open(3))
  show "map fst (alias_fields EmbeddedRelationship_alias) = [''predicate'', ''object'']"
    by (simp add: EmbeddedRelationship_alias_def)
  show "project E C R = Inr se
        \<longrightarrow> relationships se
            = map (\<lambda>r. \<lparr>predicate_Embedded = predicate r, object_Embedded = object r\<rparr>) R"
    by (auto simp: project_def project_relationships_cases split: if_splits)
  show "snd (snd (reproject se'))
       = map (\<lambda>p. \<lparr>subject = id_SerializedEntity se', predicate = predicate_Embedded p,
                   object = object_Embedded p\<rparr>) (relationships se')"
    by (simp add: reproject_def)
  show "map subject (snd (snd (reproject se')))
       = replicate (length (relationships se')) (id_SerializedEntity se')"
    by (simp add: reproject_def map_replicate_const comp_def)
  show "errors uri outer SerializedEntitySchema_relationships_items (JObject ((''subject'', x) # fs))
       = errors uri outer SerializedEntitySchema_relationships_items (JObject fs)"
    by (rule errors_declared_only [OF items_open(1,2)]) (simp add: items_open(3))
qed

theorem C7_embedded_form_witness:
  "\<exists>se. project ''did:example:alice'' [tagsComponent] [knows_bob] = Inr se
     \<and> relationships se
         = [\<lparr>predicate_Embedded = ''https://schema.org/knows'',
             object_Embedded = ''did:example:bob''\<rparr>]"
proof -
  obtain se where se: "project ''did:example:alice'' [tagsComponent] [knows_bob] = Inr se"
    by (auto simp: project_def knows_bob_def)
  with C7_embedded_form [of "''did:example:alice''" "[tagsComponent]" "[knows_bob]" se]
  have "relationships se
      = map (\<lambda>r. \<lparr>predicate_Embedded = predicate r, object_Embedded = object r\<rparr>) [knows_bob]"
    by blast
  with se show ?thesis
    by (simp add: knows_bob_def)
qed

text \<open>
  Claim C7 as stated fails: an envelope whose embedded pair carries a \<open>subject\<close> field is
  accepted by \<open>SerializedEntitySchema\<close>, and has the type \<open>SerializedEntityType\<close>.
\<close>

theorem C7_embedded_subject_counterexample:
  "validate uri_syntax SerializedEntitySchema serialized_with_subject = Inr ()
   \<and> has_ts_type SerializedEntityType_alias serialized_with_subject
   \<and> map (field ''subject'') (embedded_pairs serialized_with_subject)
       = [Some (JString ''did:example:carol'')]"
  by (simp add: validate_Inr errors_SerializedEntity errors_uri_string errors_plain_string
        errors_array_of errors_items serialized_with_subject_def embedded_pairs_def
        uri_syntax_alice uri_syntax_bob SerializedEntityType_alias_def
        EmbeddedRelationship_alias_def)

section \<open>Type aliases and schema literals side by side\<close>

text \<open>
  Claim C8, as amended. For Entity, Component, Relationship and the envelope of a
  Serialized Entity, the exported type alias and the schema literal declare the same
  fields, of the same kind, and agree on which of them are required and which optional;
  and every value that the Entity, Component or Relationship schema accepts has the
  corresponding type. The two do not describe the same set of values: the schemas ask
  for URI syntax where the type aliases say \<open>string\<close>.
\<close>

theorem C8_aliases_mirror_schemas:
  "alias_fields EntityType_alias = schema_fields EntitySchema
   \<and> alias_fields (ComponentType_alias ts_Record_string_unknown) = schema_fields ComponentSchema
   \<and> alias_fields RelationshipType_alias = schema_fields RelationshipSchema
   \<and> alias_fields SerializedEntityType_alias = schema_fields SerializedEntitySchema
   \<and> (validate uri EntitySchema v = Inr () \<longrightarrow> has_ts_type EntityType_alias v)
   \<and> (validate uri ComponentSchema v = Inr ()
        \<longrightarrow> has_ts_type (ComponentType_alias ts_Record_string_unknown) v)
   \<and> (validate uri RelationshipSchema v = Inr () \<longrightarrow> has_ts_type RelationshipType_alias v)"
proof (intro conjI)
  show "alias_fields EntityType_alias = schema_fields EntitySchema"
    by (simp add: EntityType_alias_def schema_fields_def EntitySchema_def)
  show "alias_fields (ComponentType_alias ts_Record_string_unknown) = schema_fields ComponentSchema"
    by (simp add: ComponentType_alias_def schema_fields_def ComponentSchema_def)
  show "alias_fields RelationshipType_alias = schema_fields RelationshipSchema"
    by (simp add: RelationshipType_alias_def schema_fields_def RelationshipSchema_def)
  show "alias_fields SerializedEntityType_alias = schema_fields SerializedEntitySchema"
    by (simp add: SerializedEntityType_alias_def schema_fields_def SerializedEntitySchema_def)
  show "validate uri EntitySchema v = Inr () \<longrightarrow> has_ts_type EntityType_alias v"
    by (cases v) (auto simp: validate_Entity_iff EntityType_alias_def)
  show "validate uri ComponentSchema v = Inr ()
        \<longrightarrow> has_ts_type (ComponentType_alias ts_Record_string_unknown) v"
    by (cases v) (auto simp: validate_Component_iff ComponentType_alias_def split: option.splits)
  show "validate uri RelationshipSchema v = Inr () \<longrightarrow> has_ts_type RelationshipType_alias v"
    by (cases v) (auto simp: validate_Relationship_iff RelationshipType_alias_def)
qed

theorem C8_aliases_mirror_schemas_witness:
  "has_ts_type EntityType_alias entity_alice
   \<and> has_ts_type RelationshipType_alias relationship_with_empty_predicate"
proof
  from C8_aliases_mirror_schemas [of uri_syntax entity_alice] validate_Entity_alice
  show "has_ts_type EntityType_alias entity_alice"
    by blast
  have "validate uri_syntax RelationshipSchema relationship_with_empty_predicate = Inr ()"
    by (simp add: validate_Relationship_iff relationship_with_empty_predicate_def
          uri_syntax_alice uri_syntax_bob)
  with C8_aliases_mirror_schemas [of uri_syntax relationship_with_empty_predicate]
  show "has_ts_type RelationshipType_alias relationship_with_empty_predicate"
    by blast
qed

text \<open>
  Claim C8 as stated fails: \<open>{id: "not a uri"}\<close> has the type \<open>EntityType\<close> and is
  rejected by \<open>EntitySchema\<close>.
\<close>

theorem C8_same_values_counterexample:
  "has_ts_type EntityType_alias entity_not_a_uri
   \<and> validate uri_syntax EntitySchema entity_not_a_uri = Inl FormatError"
  by (simp add: EntityType_alias_def entity_not_a_uri_def validate_Inl errors_Entity
        errors_uri_string uri_syntax_not_a_uri)

section \<open>Open objects\<close>

text \<open>
  Claim C9. None of the four schema literals sets \<open>additionalProperties\<close> to false at
  its top level, so validation against any of them depends on the declared fields only:
  two objects that agree on the declared fields get the same verdict, and a field that
  the schema does not declare, put before or after the others, does not change it.
\<close>

theorem C9_extra_fields_accepted:
  assumes "S \<in> set [EntitySchema, ComponentSchema, RelationshipSchema, SerializedEntitySchema]"
  shows "additionalPropertiesOf S \<noteq> Some False
    \<and> ((\<forall>k\<in>set (declared S). map_of fs k = map_of fs' k)
         \<longrightarrow> validate uri S (JObject fs) = validate uri S (JObject fs'))
    \<and> (k \<notin> set (declared S)
         \<longrightarrow> validate uri S (JObject ((k, x) # fs)) = validate uri S (JObject fs)
           \<and> validate uri S (JObject (fs @ [(k, x)])) = validate uri S (JObject fs))"
proof (intro conjI impI)
  show "additionalPropertiesOf S \<noteq> Some False"
    using four_schemas_open(1) [OF assms] .
  have agree: "validate uri S (JObject gs) = validate uri S (JObject gs')"
    if "\<forall>k\<in>set (declared S). map_of gs k = map_of gs' k" for gs gs'
    using errors_declared_only [OF four_schemas_open [OF assms] that, of uri True]
    by (simp add: validate_def)
  show "validate uri S (JObject fs) = validate uri S (JObject fs')"
    if "\<forall>k\<in>set (declared S). map_of fs k = map_of fs' k"
    using agree [OF that] .
  show "validate uri S (JObject ((k, x) # fs)) = validate uri S (JObject fs)"
    if "k \<notin> set (declared S)"
    using that by (intro agree) auto
  show "validate uri S (JObject (fs @ [(k, x)])) = validate uri S (JObject fs)"
    if "k \<notin> set (declared S)"
    using that by (intro agree) (auto simp: map_add_def split: option.splits)
qed

theorem C9_extra_fields_accepted_witness:
  "validate uri_syntax EntitySchema entity_with_extra_field = Inr ()
   \<and> keys entity_with_extra_field = [''id'', ''extra'']"
proof
  have "EntitySchema \<in> set [EntitySchema, ComponentSchema, RelationshipSchema, SerializedEntitySchema]"
    by simp
  moreover have "''extra'' \<notin> set (declared EntitySchema)"
    by (simp add: declared_def EntitySchema_def)
  ultimately have "validate uri_syntax EntitySchema
        (JObject ([(''id'', JString ''did:example:alice'')] @ [(''extra'', JNumber 1)]))
      = validate uri_syntax EntitySchema (JObject [(''id'', JString ''did:example:alice'')])"
    using C9_extra_fields_accepted [where S = EntitySchema and k = "''extra''"
      and fs = "[(''id'', JString ''did:example:alice'')]" and uri = uri_syntax
      and x = "JNumber 1"]
    by blast
  with validate_Entity_alice
  show "validate uri_syntax EntitySchema entity_with_extra_field = Inr ()"
    by (simp add: entity_with_extra_field_def entity_alice_def)
  show "keys entity_with_extra_field = [''id'', ''extra'']"
    by (simp add: entity_with_extra_field_def)
qed

section \<open>Embedded pairs with fields left out\<close>

text \<open>
  Claim C10. The item schema of \<open>relationships\<close> requires no field. The empty object
  satisfies it; an entry that satisfies it still does after \<open>predicate\<close>, \<open>object\<close> or
  both have been left out; and an accepted envelope stays accepted when an empty pair, or
  a pair with a predicate alone, is added to its relationships.
\<close>

theorem C10_item_fields_optional:
  "requiredOf SerializedEntitySchema_relationships_items = []
   \<and> errors uri False SerializedEntitySchema_relationships_items (JObject []) = []
   \<and> (errors uri False SerializedEntitySchema_relationships_items e = []
        \<longrightarrow> errors uri False SerializedEntitySchema_relationships_items (omit ''predicate'' e) = []
          \<and> errors uri False SerializedEntitySchema_relationships_items (omit ''object'' e) = []
          \<and> errors uri False SerializedEntitySchema_relationships_items
               (omit ''predicate'' (omit ''object'' e)) = [])
   \<and> (e \<in> set [JObject [], JObject [(''predicate'', JString p)]]
        \<and> validate uri SerializedEntitySchema
            (JObject [(''id'', i), (''components'', c), (''relationships'', JArray rs)]) = Inr ()
        \<longrightarrow> validate uri SerializedEntitySchema
            (JObject [(''id'', i), (''components'', c), (''relationships'', JArray (rs @ [e]))])
            = Inr ())"
proof (intro conjI)
  show "requiredOf SerializedEntitySchema_relationships_items = []"
    by (simp add: SerializedEntitySchema_relationships_items_def)
  show "errors uri False SerializedEntitySchema_relationships_items (JObject []) = []"
    by (simp add: errors_items)
  show "errors uri False SerializedEntitySchema_relationships_items e = []
        \<longrightarrow> errors uri False SerializedEntitySchema_relationships_items (omit ''predicate'' e) = []
          \<and> errors uri False SerializedEntitySchema_relationships_items (omit ''object'' e) = []
          \<and> errors uri False SerializedEntitySchema_relationships_items
               (omit ''predicate'' (omit ''object'' e)) = []"
    by (cases e) (simp_all add: errors_items map_of_omit del: filter_filter)
  show "e \<in> set [JObject [], JObject [(''predicate'', JString p)]]
        \<and> validate uri SerializedEntitySchema
            (JObject [(''id'', i), (''components'', c), (''relationships'', JArray rs)]) = Inr ()
        \<longrightarrow> validate uri SerializedEntitySchema
            (JObject [(''id'', i), (''components'', c), (''relationships'', JArray (rs @ [e]))])
            = Inr ()"
    by (auto simp: validate_Inr errors_SerializedEntity errors_array_of errors_items
          errors_plain_string)
qed

theorem C10_item_fields_optional_witness:
  "validate uri_syntax SerializedEntitySchema
     (JObject [(''id'', JString ''did:example:alice''), (''components'', JArray []),
               (''relationships'', JArray [JObject []])]) = Inr ()
   \<and> errors uri_syntax False SerializedEntitySchema_relationships_items
       (omit ''predicate'' (JObject [(''predicate'', JString ''knows''),
                                    (''object'', JString ''did:example:bob'')])) = []"
proof
  have "validate uri_syntax SerializedEntitySchema
     (JObject [(''id'', JString ''did:example:alice''), (''components'', JArray []),
               (''relationships'', JArray [])]) = Inr ()"
    by (simp add: validate_Inr errors_SerializedEntity errors_uri_string errors_array_of
          uri_syntax_alice)
  with C10_item_fields_optional [of uri_syntax "JObject []" _ "JString ''did:example:alice''"
      "JArray []" "[]"]
  show "validate uri_syntax SerializedEntitySchema
     (JObject [(''id'', JString ''did:example:alice''), (''components'', JArray []),
               (''relationships'', JArray [JObject []])]) = Inr ()"
    by simp
  have "errors uri_syntax False SerializedEntitySchema_relationships_items
       (JObject [(''predicate'', JString ''knows''), (''object'', JString ''did:example:bob'')]) = []"
    by (simp add: errors_items errors_plain_string errors_uri_string uri_syntax_bob)
  with C10_item_fields_optional [of uri_syntax
      "JObject [(''predicate'', JString ''knows''), (''object'', JString ''did:example:bob'')]"]
  show "errors uri_syntax False SerializedEntitySchema_relationships_items
       (omit ''predicate'' (JObject [(''predicate'', JString ''knows''),
                                    (''object'', JString ''did:example:bob'')])) = []"
    by blast
qed

end
